theory Spec2Isabelle
  imports Complex_Main "HOL-Library.Multiset" "HOL-Library.Product_Lexorder"
begin

section \<open>Python values and exceptions\<close>

text \<open>
  The module is dynamically typed: what the chat service hands back, what is read out of it
  and what is written to the history file are Python values. Numbers are modelled as reals
  (comparisons are exact; the rounding of float arithmetic is not modelled), strings as
  ASCII strings, a \<^verbatim>\<open>dict\<close> as an association list in insertion order.
\<close>

datatype pyval =
    PNone
  | PBool bool
  | PNum real
  | PStr string
  | PList "pyval list"
  | PDict "(string \<times> pyval) list"

text \<open>
  The exceptions the modelled code can meet. \<open>ServiceError\<close> stands for whatever a remote
  service or a library raises on its own account (no network, no API key, a refused
  request); \<open>UnicodeDecodeError\<close> for a file that cannot be read as text.
\<close>

datatype exn =
    AttributeError
  | TypeError
  | KeyError
  | JSONDecodeError
  | UnicodeDecodeError
  | ServiceError

text \<open>Truth value of a Python value, as \<^verbatim>\<open>if x\<close> and \<^verbatim>\<open>x and ...\<close> test it.\<close>

fun truthy :: "pyval \<Rightarrow> bool" where
  "truthy PNone = False"
| "truthy (PBool b) = b"
| "truthy (PNum x) = (x \<noteq> 0)"
| "truthy (PStr s) = (s \<noteq> [])"
| "truthy (PList xs) = (xs \<noteq> [])"
| "truthy (PDict kvs) = (kvs \<noteq> [])"

text \<open>
  \<^verbatim>\<open>x.get(key)\<close>: only a \<^verbatim>\<open>dict\<close> has the method; a missing key gives \<^verbatim>\<open>None\<close>.
  On a \<^verbatim>\<open>str\<close>, a \<^verbatim>\<open>list\<close>, a number or \<^verbatim>\<open>None\<close> the attribute lookup raises.
\<close>

fun py_get :: "pyval \<Rightarrow> string \<Rightarrow> exn + pyval" where
  "py_get (PDict kvs) key = Inr (case map_of kvs key of None \<Rightarrow> PNone | Some v \<Rightarrow> v)"
| "py_get _ key = Inl AttributeError"

text \<open>\<^verbatim>\<open>s.lower()\<close> on ASCII text; the same function is behind pandas' \<^verbatim>\<open>.str.lower()\<close>.\<close>

definition lower_char :: "char \<Rightarrow> char" where
  "lower_char c =
     (case map_of (zip ''ABCDEFGHIJKLMNOPQRSTUVWXYZ'' ''abcdefghijklmnopqrstuvwxyz'') c of
        None \<Rightarrow> c
      | Some l \<Rightarrow> l)"

definition lower :: "string \<Rightarrow> string" where
  "lower s = map lower_char s"

text \<open>
  \<^verbatim>\<open>x.lower()\<close> on a Python value: only a \<^verbatim>\<open>str\<close> has the method.
\<close>

fun py_lower :: "pyval \<Rightarrow> exn + string" where
  "py_lower (PStr s) = Inr (lower s)"
| "py_lower _ = Inl AttributeError"


section \<open>The catalog\<close>

text \<open>
  One row of the data frame \<^verbatim>\<open>df\<close>: the columns of \<^verbatim>\<open>products.json\<close>, the embedding
  of the description computed at load time, and the two score columns, which the frame as
  loaded does not have (\<open>None\<close>).
\<close>

record row =
  title :: string
  description :: string
  category :: string
  price :: real
  rate :: real
  review_count :: nat
  embedding :: "real list"
  similarity_score :: "real option"
  final_score :: "real option"

type_synonym dataframe = "row list"

text \<open>\<^verbatim>\<open>frame.head(n)\<close>: the first \<open>n\<close> rows, or all but the last \<open>-n\<close> for a negative \<open>n\<close>.\<close>

definition head :: "int \<Rightarrow> 'a list \<Rightarrow> 'a list" where
  "head n xs = (if 0 \<le> n then take (nat n) xs else take (length xs - nat (- n)) xs)"

text \<open>
  \<^verbatim>\<open>frame[["title", "price", "description", "rate", "review_count"]].to_dict(orient="records")\<close>:
  one \<^verbatim>\<open>dict\<close> per row, with these five keys in this order.
\<close>

definition to_record :: "row \<Rightarrow> pyval" where
  "to_record r =
     PDict [(''title'', PStr (title r)), (''price'', PNum (price r)),
            (''description'', PStr (description r)), (''rate'', PNum (rate r)),
            (''review_count'', PNum (real (review_count r)))]"

definition to_dict :: "dataframe \<Rightarrow> pyval list" where
  "to_dict frame = map to_record frame"


section \<open>Libraries and remote services\<close>

text \<open>
  What the module calls and does not define. \<open>chat_content\<close> is the content of the first
  choice of the chat completion for the prompt built from a query (the documented type of
  that content is text; the module reads it with \<^verbatim>\<open>.get\<close>, as a mapping);
  \<open>encode\<close> is the sentence embedding model; \<open>cosine_similarity\<close> is scikit-learn's.
  A sort of pandas computes an indexer from the key column(s), the positions of the rows
  in their new order, and takes the rows in that order: \<open>argsort_final\<close> is the indexer of
  \<^verbatim>\<open>sort_values(by="final_score", ascending=False)\<close>, \<open>argsort_popular\<close> that of
  \<^verbatim>\<open>sort_values(by=["rate", "review_count"], ascending=False)\<close>.
  \<open>ge_other\<close> and \<open>le_other\<close> are what pandas makes of \<^verbatim>\<open>column >= bound\<close> and
  \<^verbatim>\<open>column <= bound\<close> for a numeric column and a bound that is not a number: a mask or
  an exception.
\<close>

record env =
  chat_content :: "string \<Rightarrow> exn + pyval"
  encode :: "string \<Rightarrow> exn + real list"
  cosine_similarity :: "real list \<Rightarrow> real list \<Rightarrow> real"
  argsort_final :: "real list \<Rightarrow> nat list"
  argsort_popular :: "(real \<times> nat) list \<Rightarrow> nat list"
  ge_other :: "real list \<Rightarrow> pyval \<Rightarrow> exn + bool list"
  le_other :: "real list \<Rightarrow> pyval \<Rightarrow> exn + bool list"

text \<open>
  The contract of a descending sort: the indexer is a permutation of the positions, and the
  keys do not increase along it. How equal keys are ordered is left to the library.
\<close>

definition descending_indexer :: "('k \<Rightarrow> 'k \<Rightarrow> bool) \<Rightarrow> 'k list \<Rightarrow> nat list \<Rightarrow> bool" where
  "descending_indexer ge keys idx \<longleftrightarrow>
     mset idx = mset [0..<length keys] \<and> sorted_wrt (\<lambda>i j. ge (keys ! i) (keys ! j)) idx"

text \<open>Rating first, review count as the tie-break, both descending.\<close>

fun popular_ge :: "real \<times> nat \<Rightarrow> real \<times> nat \<Rightarrow> bool" where
  "popular_ge (r1, c1) (r2, c2) \<longleftrightarrow> r2 < r1 \<or> (r1 = r2 \<and> c2 \<le> c1)"

definition sorts_final :: "env \<Rightarrow> bool" where
  "sorts_final env \<longleftrightarrow> (\<forall>keys. descending_indexer (\<lambda>a b. b \<le> a) keys (argsort_final env keys))"

definition sorts_popular :: "env \<Rightarrow> bool" where
  "sorts_popular env \<longleftrightarrow> (\<forall>keys. descending_indexer popular_ge keys (argsort_popular env keys))"

text \<open>
  \<^verbatim>\<open>frame.take(indexer)\<close>: the rows at the positions of the indexer, in its order. Every
  position of an indexer that meets the contract is in range.
\<close>

definition take_rows :: "'a list \<Rightarrow> nat list \<Rightarrow> 'a list" where
  "take_rows frame idx = map (\<lambda>i. frame ! i) idx"

text \<open>
  \<^verbatim>\<open>column >= bound\<close> and \<^verbatim>\<open>column <= bound\<close>, row by row against a number.
\<close>

fun column_ge :: "env \<Rightarrow> real list \<Rightarrow> pyval \<Rightarrow> exn + bool list" where
  "column_ge env column (PNum x) = Inr (map (\<lambda>p. x \<le> p) column)"
| "column_ge env column bound = ge_other env column bound"

fun column_le :: "env \<Rightarrow> real list \<Rightarrow> pyval \<Rightarrow> exn + bool list" where
  "column_le env column (PNum x) = Inr (map (\<lambda>p. p \<le> x) column)"
| "column_le env column bound = le_other env column bound"

text \<open>\<^verbatim>\<open>frame[mask]\<close>: the rows at which the mask holds, as a new frame.\<close>

definition select_rows :: "bool list \<Rightarrow> 'a list \<Rightarrow> 'a list" where
  "select_rows keep frame = map snd (filter fst (zip keep frame))"


section \<open>Loading the catalog\<close>

text \<open>
  One record of \<^verbatim>\<open>products.json\<close>, a list of such records, with the description as
  text.
\<close>

record product =
  product_title :: string
  product_description :: string
  product_category :: string
  product_price :: real
  product_rate :: real
  product_review_count :: nat

text \<open>
  \<^verbatim>\<open>df["description"].apply(lambda x: embedding_model.encode(x) ...)\<close>: the rows in
  their order, each with the embedding of its description; an exception of the model ends
  the import. (The other branch of the lambda, a vector of zeros, is for a description that
  is no text.)
\<close>

fun embed_rows :: "env \<Rightarrow> product list \<Rightarrow> exn + dataframe" where
  "embed_rows env [] = Inr []"
| "embed_rows env (p # ps) =
     (case encode env (product_description p) of
        Inl e \<Rightarrow> Inl e
      | Inr emb \<Rightarrow>
          (case embed_rows env ps of
             Inl e \<Rightarrow> Inl e
           | Inr rows \<Rightarrow>
               Inr (\<lparr>title = product_title p, description = product_description p,
                      category = product_category p, price = product_price p,
                      rate = product_rate p, review_count = product_review_count p,
                      embedding = emb, similarity_score = None, final_score = None\<rparr> # rows)))"

text \<open>
  Lines 25 to 31, run once when the module is imported. \<^verbatim>\<open>pd.read_json\<close> makes of an
  empty list of records a frame without columns, and \<^verbatim>\<open>df["description"]\<close> then raises
  \<^verbatim>\<open>KeyError\<close>: the module does not load, and no request is served.
\<close>

definition load_catalog :: "env \<Rightarrow> product list \<Rightarrow> exn + dataframe" where
  "load_catalog env products = (if products = [] then Inl KeyError else embed_rows env products)"


section \<open>The recommendation engine\<close>

definition get_text_embedding :: "env \<Rightarrow> string \<Rightarrow> exn + real list" where
  "get_text_embedding env text = encode env text"

text \<open>
  \<^verbatim>\<open>analyze_user_input\<close> sends the prompt and returns the content of the answer as it
  comes; it has no handler, so an exception of the service leaves it.
\<close>

definition analyze_user_input :: "env \<Rightarrow> string \<Rightarrow> exn + pyval" where
  "analyze_user_input env user_query = chat_content env user_query"

text \<open>
  Step 1 of \<^verbatim>\<open>recommend_products\<close>:
  \<^verbatim>\<open>df[df["category"].str.lower() == category.lower()] if category else df\<close>.
  Indexing with a mask builds a new frame; the other branch is \<^verbatim>\<open>df\<close> itself. The
  flag of the result says whether \<^verbatim>\<open>filtered_df\<close> is the object \<^verbatim>\<open>df\<close>.
\<close>

definition filter_category :: "pyval \<Rightarrow> dataframe \<Rightarrow> exn + bool \<times> dataframe" where
  "filter_category cat df =
     (if truthy cat
      then (case py_lower cat of
              Inl e \<Rightarrow> Inl e
            | Inr c \<Rightarrow> Inr (False, filter (\<lambda>r. lower (category r) = c) df))
      else Inr (True, df))"

text \<open>
  \<^verbatim>\<open>budget and isinstance(budget, list) and len(budget) == 2\<close>, then
  \<^verbatim>\<open>min_price, max_price = budget\<close>.
\<close>

fun budget_bounds :: "pyval \<Rightarrow> (pyval \<times> pyval) option" where
  "budget_bounds (PList [min_price, max_price]) = Some (min_price, max_price)"
| "budget_bounds _ = None"

text \<open>
  Step 2:
  \<^verbatim>\<open>filtered_df[(filtered_df["price"] >= min_price) & (filtered_df["price"] <= max_price)]\<close>,
  a new frame again; without a two-element list the frame of step 1 goes on.
\<close>

definition price_mask :: "env \<Rightarrow> real list \<Rightarrow> pyval \<Rightarrow> pyval \<Rightarrow> exn + bool list" where
  "price_mask env column min_price max_price =
     (case column_ge env column min_price of
        Inl e \<Rightarrow> Inl e
      | Inr not_below \<Rightarrow>
          (case column_le env column max_price of
             Inl e \<Rightarrow> Inl e
           | Inr not_above \<Rightarrow> Inr (map2 (\<and>) not_below not_above)))"

definition filter_budget :: "env \<Rightarrow> pyval \<Rightarrow> bool \<times> dataframe \<Rightarrow> exn + bool \<times> dataframe" where
  "filter_budget env budget fd =
     (case budget_bounds budget of
        None \<Rightarrow> Inr fd
      | Some (min_price, max_price) \<Rightarrow>
          (case price_mask env (map price (snd fd)) min_price max_price of
             Inl e \<Rightarrow> Inl e
           | Inr keep \<Rightarrow> Inr (False, select_rows keep (snd fd))))"

text \<open>
  Lines 80 to 93: the extractor's answer, the three \<^verbatim>\<open>.get\<close> calls (the features are
  read and not used), and the two filters.
\<close>

definition candidates :: "env \<Rightarrow> dataframe \<Rightarrow> string \<Rightarrow> exn + bool \<times> dataframe" where
  "candidates env df user_query =
     (case analyze_user_input env user_query of
        Inl e \<Rightarrow> Inl e
      | Inr extracted_info \<Rightarrow>
          (case py_get extracted_info ''category'' of
             Inl e \<Rightarrow> Inl e
           | Inr cat \<Rightarrow>
               (case py_get extracted_info ''budget'' of
                  Inl e \<Rightarrow> Inl e
                | Inr budget \<Rightarrow>
                    (case py_get extracted_info ''features'' of
                       Inl e \<Rightarrow> Inl e
                     | Inr features \<Rightarrow>
                         (case filter_category cat df of
                            Inl e \<Rightarrow> Inl e
                          | Inr fd \<Rightarrow> filter_budget env budget fd)))))"

text \<open>
  Steps 3 and 4 on one row: the similarity to the query, then
  \<^verbatim>\<open>similarity_score * 0.6 + rate * 0.3 + np.log1p(review_count) * 0.1\<close>.
\<close>

definition score_row :: "env \<Rightarrow> real list \<Rightarrow> row \<Rightarrow> row" where
  "score_row env query_embedding r =
     (let s = cosine_similarity env query_embedding (embedding r)
      in r\<lparr>similarity_score := Some s,
            final_score := Some (s * 0.6 + rate r * 0.3 + ln (1 + real (review_count r)) * 0.1)\<rparr>)"

text \<open>
  Lines 96 to 107: the frame with its two score columns set. The flag is handed on: when
  \<^verbatim>\<open>filtered_df\<close> is \<^verbatim>\<open>df\<close>, the two assignments write the columns of \<^verbatim>\<open>df\<close>.
\<close>

definition scored_candidates :: "env \<Rightarrow> dataframe \<Rightarrow> string \<Rightarrow> exn + bool \<times> dataframe" where
  "scored_candidates env df user_query =
     (case candidates env df user_query of
        Inl e \<Rightarrow> Inl e
      | Inr (is_df, filtered_df) \<Rightarrow>
          (case get_text_embedding env user_query of
             Inl e \<Rightarrow> Inl e
           | Inr query_embedding \<Rightarrow> Inr (is_df, map (score_row env query_embedding) filtered_df)))"

text \<open>The key of the final sort; every row has its score by then.\<close>

definition final_key :: "row \<Rightarrow> real" where
  "final_key r = (case final_score r of Some x \<Rightarrow> x | None \<Rightarrow> 0)"

definition sort_values_final :: "env \<Rightarrow> dataframe \<Rightarrow> dataframe" where
  "sort_values_final env frame = take_rows frame (argsort_final env (map final_key frame))"

text \<open>
  \<^verbatim>\<open>recommend_products\<close>: the result or the exception, and \<^verbatim>\<open>df\<close> as the call leaves it.
  Every exception is raised before the first assignment to a column.
\<close>

definition recommend_products ::
    "env \<Rightarrow> dataframe \<Rightarrow> string \<Rightarrow> int \<Rightarrow> (exn + pyval list) \<times> dataframe" where
  "recommend_products env df user_query top_n =
     (case scored_candidates env df user_query of
        Inl e \<Rightarrow> (Inl e, df)
      | Inr (is_df, filtered_df) \<Rightarrow>
          (Inr (to_dict (head top_n (sort_values_final env filtered_df))),
           if is_df then filtered_df else df))"


section \<open>The cold-start fallback\<close>

definition popular_key :: "row \<Rightarrow> real \<times> nat" where
  "popular_key r = (rate r, review_count r)"

definition sort_values_popular :: "env \<Rightarrow> dataframe \<Rightarrow> dataframe" where
  "sort_values_popular env frame = take_rows frame (argsort_popular env (map popular_key frame))"

text \<open>
  The expression both fallback branches return:
  \<^verbatim>\<open>df.sort_values(by=["rate", "review_count"], ascending=False).head(top_n)[[...]].to_dict(orient="records")\<close>.
\<close>

definition most_popular :: "env \<Rightarrow> dataframe \<Rightarrow> int \<Rightarrow> pyval list" where
  "most_popular env df top_n = to_dict (head top_n (sort_values_popular env df))"

text \<open>
  \<^verbatim>\<open>recommend_products_with_fallback\<close>: \<^verbatim>\<open>except Exception\<close> takes every exception of
  the engine; \<^verbatim>\<open>not recommendations\<close> holds of the empty list.
\<close>

definition recommend_products_with_fallback ::
    "env \<Rightarrow> dataframe \<Rightarrow> string \<Rightarrow> int \<Rightarrow> (exn + pyval list) \<times> dataframe" where
  "recommend_products_with_fallback env df user_query top_n =
     (case recommend_products env df user_query top_n of
        (Inl e, df') \<Rightarrow> (Inr (most_popular env df' top_n), df')
      | (Inr recommendations, df') \<Rightarrow>
          if recommendations = [] then (Inr (most_popular env df' top_n), df')
          else (Inr recommendations, df'))"

text \<open>
  The module from its import to the answer to one request: the catalog is loaded, then
  \<^verbatim>\<open>recommend_products_with_fallback\<close> is called on it.
\<close>

definition import_then_recommend ::
    "env \<Rightarrow> product list \<Rightarrow> string \<Rightarrow> int \<Rightarrow> exn + pyval list" where
  "import_then_recommend env products user_query top_n =
     (case load_catalog env products of
        Inl e \<Rightarrow> Inl e
      | Inr df \<Rightarrow> fst (recommend_products_with_fallback env df user_query top_n))"


section \<open>The history file\<close>

text \<open>
  The JSON library, over the contents of a file: \<open>dumps\<close> is what \<^verbatim>\<open>json.dump\<close> writes for
  a value, \<open>loads\<close> what \<^verbatim>\<open>json.load\<close> makes of a file's contents, a value or an exception.
  The file system is the one file \<^verbatim>\<open>recommendations.json\<close>: \<open>None\<close> when it does not
  exist, its contents otherwise.
\<close>

record 't json =
  dumps :: "pyval \<Rightarrow> 't"
  loads :: "'t \<Rightarrow> exn + pyval"

definition load_existing_recommendations :: "'t json \<Rightarrow> 't option \<Rightarrow> exn + pyval" where
  "load_existing_recommendations js file =
     (case file of
        None \<Rightarrow> Inr (PList [])
      | Some contents \<Rightarrow>
          (case loads js contents of
             Inl e \<Rightarrow> if e = JSONDecodeError then Inr (PList []) else Inl e
           | Inr data \<Rightarrow> Inr data))"

definition history_entry :: "string \<Rightarrow> pyval \<Rightarrow> pyval" where
  "history_entry query recommendations =
     PDict [(''query'', PStr query), (''recommendations'', recommendations)]"

text \<open>
  \<^verbatim>\<open>data.append(...)\<close>: only a \<^verbatim>\<open>list\<close> has the method.
\<close>

fun py_append :: "pyval \<Rightarrow> pyval \<Rightarrow> exn + pyval" where
  "py_append (PList xs) x = Inr (PList (xs @ [x]))"
| "py_append _ x = Inl AttributeError"

text \<open>
  \<^verbatim>\<open>save_recommendations\<close>: the outcome and the file after the call. The file is opened
  for writing only after the load and the append went through.
\<close>

definition save_recommendations ::
    "'t json \<Rightarrow> string \<Rightarrow> pyval \<Rightarrow> 't option \<Rightarrow> (exn + unit) \<times> 't option" where
  "save_recommendations js query recommendations file =
     (case load_existing_recommendations js file of
        Inl e \<Rightarrow> (Inl e, file)
      | Inr data \<Rightarrow>
          (case py_append data (history_entry query recommendations) of
             Inl e \<Rightarrow> (Inl e, file)
           | Inr data' \<Rightarrow> (Inr (), Some (dumps js data'))))"

text \<open>A run of calls to \<^verbatim>\<open>save_recommendations\<close>, one after the other, stopping at an exception.\<close>

fun save_all :: "'t json \<Rightarrow> (string \<times> pyval) list \<Rightarrow> 't option \<Rightarrow> (exn + unit) \<times> 't option" where
  "save_all js [] file = (Inr (), file)"
| "save_all js ((query, recommendations) # calls) file =
     (case save_recommendations js query recommendations file of
        (Inl e, file') \<Rightarrow> (Inl e, file')
      | (Inr u, file') \<Rightarrow> save_all js calls file')"


section \<open>A reference library and a sample shop\<close>

text \<open>
  Instances for the concrete runs below. The two indexers sort the positions by insertion;
  they are one library that meets the contract of a descending sort, not the one pandas
  uses. The sample service answers every prompt with the same value and embeds every text
  as the first unit vector; on unit vectors the cosine is the inner product. It refuses
  to compare a price with anything but a number.
\<close>

definition insertion_argsort_final :: "real list \<Rightarrow> nat list" where
  "insertion_argsort_final keys = sort_key (\<lambda>i. - (keys ! i)) [0..<length keys]"

definition insertion_argsort_popular :: "(real \<times> nat) list \<Rightarrow> nat list" where
  "insertion_argsort_popular keys =
     sort_key (\<lambda>i. (- fst (keys ! i), - int (snd (keys ! i)))) [0..<length keys]"

definition inner_product :: "real list \<Rightarrow> real list \<Rightarrow> real" where
  "inner_product a b = sum_list (map2 (*) a b)"

definition demo_env :: "exn + pyval \<Rightarrow> env" where
  "demo_env answer =
     \<lparr>chat_content = (\<lambda>prompt. answer),
      encode = (\<lambda>text. Inr [1, 0]),
      cosine_similarity = inner_product,
      argsort_final = insertion_argsort_final,
      argsort_popular = insertion_argsort_popular,
      ge_other = (\<lambda>column bound. Inl TypeError),
      le_other = (\<lambda>column bound. Inl TypeError)\<rparr>"

definition trail_runner :: row where
  "trail_runner =
     \<lparr>title = ''Trail Runner'', description = ''Light running shoe'', category = ''shoes'',
      price = 4999 / 100, rate = 9 / 2, review_count = 0, embedding = [1, 0],
      similarity_score = None, final_score = None\<rparr>"

definition city_sneaker :: row where
  "city_sneaker =
     \<lparr>title = ''City Sneaker'', description = ''Leather sneaker'', category = ''shoes'',
      price = 200, rate = 4, review_count = 0, embedding = [0, 1],
      similarity_score = None, final_score = None\<rparr>"

definition desk_lamp :: row where
  "desk_lamp =
     \<lparr>title = ''Desk Lamp'', description = ''Lamp with a dimmer'', category = ''lighting'',
      price = 120, rate = 5, review_count = 0, embedding = [1, 0],
      similarity_score = None, final_score = None\<rparr>"

definition hiking_boot :: row where
  "hiking_boot =
     \<lparr>title = ''Hiking Boot'', description = ''Waterproof boot'', category = ''SHOES'',
      price = 150, rate = 3, review_count = 0, embedding = [1, 0],
      similarity_score = None, final_score = None\<rparr>"

definition rain_jacket :: row where
  "rain_jacket =
     \<lparr>title = ''Rain Jacket'', description = ''Waterproof jacket'', category = ''clothing'',
      price = 80, rate = 4, review_count = 12, embedding = [1, 0],
      similarity_score = None, final_score = None\<rparr>"

definition demo_catalog :: dataframe where
  "demo_catalog = [trail_runner, city_sneaker, desk_lamp, hiking_boot]"

definition shoes_intent :: pyval where
  "shoes_intent = PDict [(''category'', PStr ''Shoes''), (''budget'', PList [PNum 50, PNum 200])]"

definition camp_stove :: product where
  "camp_stove =
     \<lparr>product_title = ''Camp Stove'', product_description = ''Gas stove'',
      product_category = ''outdoor'', product_price = 45, product_rate = 4,
      product_review_count = 0\<rparr>"

definition dome_tent :: product where
  "dome_tent =
     \<lparr>product_title = ''Dome Tent'', product_description = ''Tent for two'',
      product_category = ''outdoor'', product_price = 130, product_rate = 9 / 2,
      product_review_count = 0\<rparr>"

definition camp_rows :: dataframe where
  "camp_rows =
     [\<lparr>title = ''Camp Stove'', description = ''Gas stove'', category = ''outdoor'',
       price = 45, rate = 4, review_count = 0, embedding = [1, 0],
       similarity_score = None, final_score = None\<rparr>,
      \<lparr>title = ''Dome Tent'', description = ''Tent for two'', category = ''outdoor'',
       price = 130, rate = 9 / 2, review_count = 0, embedding = [1, 0],
       similarity_score = None, final_score = None\<rparr>]"

text \<open>
  File contents for the JSON library: what was written for a value and reads back as that
  value, or text that is no JSON.
\<close>

datatype contents = Garbled | Json_text pyval

definition ideal_json :: "contents json" where
  "ideal_json =
     \<lparr>dumps = Json_text,
      loads = (\<lambda>c. case c of Garbled \<Rightarrow> Inl JSONDecodeError | Json_text v \<Rightarrow> Inr v)\<rparr>"


section \<open>Sorting by an indexer\<close>

lemma py_get_Inr: "py_get v k = Inr x \<Longrightarrow> \<exists>kvs. v = PDict kvs"
  by (cases v) auto

lemma indexer_set: "descending_indexer ge keys idx \<Longrightarrow> set idx = {0..<length keys}"
  unfolding descending_indexer_def by (metis mset_eq_setD set_upt)

lemma take_rows_mset:
  assumes "descending_indexer ge keys idx" and "length keys = length frame"
  shows "mset (take_rows frame idx) = mset frame"
proof -
  have "mset (take_rows frame idx) = image_mset (\<lambda>i. frame ! i) (mset idx)"
    by (simp add: take_rows_def)
  also have "\<dots> = image_mset (\<lambda>i. frame ! i) (mset [0..<length frame])"
    using assms by (simp add: descending_indexer_def)
  also have "\<dots> = mset (map (\<lambda>i. frame ! i) [0..<length frame])"
    by simp
  also have "\<dots> = mset frame"
    by (simp add: map_nth)
  finally show ?thesis .
qed

lemma take_rows_sorted:
  assumes "descending_indexer ge (map key frame) idx"
  shows "sorted_wrt (\<lambda>a b. ge (key a) (key b)) (take_rows frame idx)"
proof -
  have in_range: "\<And>i. i \<in> set idx \<Longrightarrow> i < length frame"
    using indexer_set [OF assms] by auto
  have "sorted_wrt (\<lambda>i j. ge (map key frame ! i) (map key frame ! j)) idx"
    using assms by (simp add: descending_indexer_def)
  then have "sorted_wrt (\<lambda>i j. ge (key (frame ! i)) (key (frame ! j))) idx"
    by (rule sorted_wrt_mono_rel [rotated]) (simp add: in_range)
  then show ?thesis
    by (simp add: take_rows_def sorted_wrt_map)
qed

lemma take_rows_map:
  assumes "\<And>i. i \<in> set idx \<Longrightarrow> i < length frame"
  shows "take_rows (map f frame) idx = map f (take_rows frame idx)"
  using assms by (simp add: take_rows_def)

lemma final_indexer:
  "sorts_final env \<Longrightarrow>
     descending_indexer (\<lambda>a b. b \<le> a) (map final_key frame) (argsort_final env (map final_key frame))"
  by (simp add: sorts_final_def)

lemma popular_indexer:
  "sorts_popular env \<Longrightarrow>
     descending_indexer popular_ge (map popular_key frame) (argsort_popular env (map popular_key frame))"
  by (simp add: sorts_popular_def)

lemma sort_values_final_mset:
  "sorts_final env \<Longrightarrow> mset (sort_values_final env frame) = mset frame"
  unfolding sort_values_final_def
  by (rule take_rows_mset [OF final_indexer]) simp_all

lemma sort_values_final_sorted:
  "sorts_final env \<Longrightarrow>
     sorted_wrt (\<lambda>a b. final_key b \<le> final_key a) (sort_values_final env frame)"
  unfolding sort_values_final_def sorts_final_def
  by (rule take_rows_sorted [where ge = "\<lambda>a b. b \<le> a"]) simp

lemma sort_values_popular_mset:
  "sorts_popular env \<Longrightarrow> mset (sort_values_popular env frame) = mset frame"
  unfolding sort_values_popular_def
  by (rule take_rows_mset [OF popular_indexer]) simp_all

lemma sort_values_popular_sorted:
  "sorts_popular env \<Longrightarrow>
     sorted_wrt (\<lambda>a b. popular_ge (popular_key a) (popular_key b)) (sort_values_popular env frame)"
  unfolding sort_values_popular_def sorts_popular_def
  by (rule take_rows_sorted) simp

lemma length_sort_values_popular:
  "sorts_popular env \<Longrightarrow> length (sort_values_popular env frame) = length frame"
  using sort_values_popular_mset [of env frame] by (metis size_mset)

lemma head_map: "head n (map f xs) = map f (head n xs)"
  by (simp add: head_def take_map)

lemma set_head: "set (head n xs) \<subseteq> set xs"
  by (auto simp: head_def dest: in_set_takeD)

lemma sorted_wrt_head: "sorted_wrt P xs \<Longrightarrow> sorted_wrt P (head n xs)"
  by (simp add: head_def sorted_wrt_take)

lemma length_head: "0 \<le> n \<Longrightarrow> length (head n xs) \<le> nat n"
  by (simp add: head_def)

lemma head_nonneg: "0 \<le> n \<Longrightarrow> head n xs = take (nat n) xs"
  by (simp add: head_def)

text \<open>
  The reference indexers meet the contract.
\<close>

lemma insertion_argsort_final_ok:
  "descending_indexer (\<lambda>a b. b \<le> a) keys (insertion_argsort_final keys)"
proof -
  have "sorted (map (\<lambda>i. - (keys ! i)) (insertion_argsort_final keys))"
    by (simp add: insertion_argsort_final_def)
  then have "sorted_wrt (\<lambda>i j. keys ! j \<le> keys ! i) (insertion_argsort_final keys)"
    by (simp add: sorted_map)
  then show ?thesis
    by (simp add: descending_indexer_def insertion_argsort_final_def)
qed

lemma insertion_argsort_popular_ok:
  "descending_indexer popular_ge keys (insertion_argsort_popular keys)"
proof -
  let ?f = "\<lambda>i. (- fst (keys ! i), - int (snd (keys ! i)))"
  have "sorted (map ?f (insertion_argsort_popular keys))"
    by (simp add: insertion_argsort_popular_def)
  then have "sorted_wrt (\<lambda>i j. ?f i \<le> ?f j) (insertion_argsort_popular keys)"
    by (simp add: sorted_map)
  moreover have "\<And>i j. ?f i \<le> ?f j \<Longrightarrow> popular_ge (keys ! i) (keys ! j)"
  proof -
    fix i j
    assume le: "?f i \<le> ?f j"
    obtain r1 c1 where a: "keys ! i = (r1, c1)" by (cases "keys ! i")
    obtain r2 c2 where b: "keys ! j = (r2, c2)" by (cases "keys ! j")
    from le show "popular_ge (keys ! i) (keys ! j)"
      by (auto simp: a b less_eq_prod_def)
  qed
  ultimately have "sorted_wrt (\<lambda>i j. popular_ge (keys ! i) (keys ! j)) (insertion_argsort_popular keys)"
    by (rule sorted_wrt_mono_rel [rotated]) 
  then show ?thesis
    by (simp add: descending_indexer_def insertion_argsort_popular_def)
qed

text \<open>
  Claim C6 asks that rows with equal final scores come in catalog order. The module calls
  \<^verbatim>\<open>sort_values\<close> with the default kind, for which pandas promises no stable order, and
  the sorting code is not part of the module, so the order of equal keys is not fixed
  here: both orders of two equal keys are indexers of a descending sort.
\<close>

lemma tie_order_left_open:
  "descending_indexer (\<lambda>a b. b \<le> a) [1, 1 :: real] [0, 1] \<and>
   descending_indexer (\<lambda>a b. b \<le> a) [1, 1 :: real] [1, 0]"
  by (simp add: descending_indexer_def upt_rec)


section \<open>The stages of the engine\<close>

lemma to_record_score_row [simp]: "to_record (score_row env qe r) = to_record r"
  by (simp add: to_record_def score_row_def Let_def)

lemma popular_key_score_row [simp]: "popular_key (score_row env qe r) = popular_key r"
  by (simp add: popular_key_def score_row_def Let_def)

lemma final_key_score_row:
  "final_key (score_row env qe r) =
     0.6 * cosine_similarity env qe (embedding r) + 0.3 * rate r + 0.1 * ln (1 + real (review_count r))"
  by (simp add: final_key_def score_row_def Let_def)

lemma to_dict_scored: "to_dict (map (score_row env qe) frame) = to_dict frame"
  by (simp add: to_dict_def)

lemma filter_category_subset:
  "filter_category cat df = Inr (is_df, fdf) \<Longrightarrow> set fdf \<subseteq> set df \<and> (is_df \<longrightarrow> fdf = df)"
  by (auto simp: filter_category_def split: if_splits sum.splits)

lemma set_select_rows: "set (select_rows keep frame) \<subseteq> set frame"
  by (auto simp: select_rows_def dest: set_zip_rightD)

lemma select_rows_both:
  "select_rows (map2 (\<and>) (map P frame) (map Q frame)) frame = filter (\<lambda>r. P r \<and> Q r) frame"
  by (induction frame) (simp_all add: select_rows_def)

lemma filter_budget_numbers:
  "filter_budget env (PList [PNum lo, PNum hi]) fd =
     Inr (False, filter (\<lambda>r. lo \<le> price r \<and> price r \<le> hi) (snd fd))"
  by (simp add: filter_budget_def price_mask_def select_rows_both)

lemma filter_budget_subset:
  "filter_budget env budget (b, fdf) = Inr (is_df, fdf') \<Longrightarrow>
     set fdf' \<subseteq> set fdf \<and> (is_df \<longrightarrow> b \<and> fdf' = fdf)"
  using set_select_rows [of _ fdf]
  by (auto simp: filter_budget_def split: option.splits prod.splits sum.splits)

lemma candidates_subset:
  assumes "candidates env df q = Inr (is_df, fdf)"
  shows "set fdf \<subseteq> set df \<and> (is_df \<longrightarrow> fdf = df)"
proof -
  from assms obtain cat budget b fdf0 where
    c: "filter_category cat df = Inr (b, fdf0)" and
    f: "filter_budget env budget (b, fdf0) = Inr (is_df, fdf)"
    by (auto simp: candidates_def split: sum.splits)
  from filter_category_subset [OF c] filter_budget_subset [OF f] show ?thesis
    by auto
qed

lemma candidates_no_intent:
  assumes "analyze_user_input env q = Inr answer"
    and "py_get answer ''category'' = Inr cat" and "\<not> truthy cat"
    and "py_get answer ''budget'' = Inr budget" and "budget_bounds budget = None"
  shows "candidates env df q = Inr (True, df)"
proof -
  from assms(2) obtain kvs where "answer = PDict kvs"
    by (auto dest: py_get_Inr)
  with assms show ?thesis
    by (simp add: candidates_def filter_category_def filter_budget_def)
qed

lemma scored_candidates_Inr:
  assumes "scored_candidates env df q = Inr (is_df, scored)"
  shows "\<exists>qe fdf. get_text_embedding env q = Inr qe \<and> candidates env df q = Inr (is_df, fdf) \<and>
           scored = map (score_row env qe) fdf"
  using assms by (auto simp: scored_candidates_def split: sum.splits)

lemma recommend_products_Inl:
  "scored_candidates env df q = Inl e \<Longrightarrow> recommend_products env df q n = (Inl e, df)"
  by (simp add: recommend_products_def)

lemma recommend_products_Inr:
  assumes "recommend_products env df user_query top_n = (Inr res, df')"
  shows "\<exists>is_df scored.
           scored_candidates env df user_query = Inr (is_df, scored) \<and>
           res = to_dict (head top_n (sort_values_final env scored)) \<and>
           df' = (if is_df then scored else df)"
proof (cases "scored_candidates env df user_query")
  case (Inl e)
  with assms show ?thesis
    by (simp add: recommend_products_def)
next
  case (Inr p)
  obtain is_df scored where "p = (is_df, scored)"
    by (cases p)
  with assms Inr show ?thesis
    by (simp add: recommend_products_def)
qed

text \<open>
  An exception of the extractor, and an answer that is no mapping (text, as the chat
  service documents it, a list, a number, \<^verbatim>\<open>None\<close>), end the call before any filter.
\<close>

lemma analyze_failure:
  "analyze_user_input env q = Inl e \<Longrightarrow> recommend_products env df q n = (Inl e, df)"
  by (simp add: recommend_products_def scored_candidates_def candidates_def)

lemma not_a_mapping:
  assumes "analyze_user_input env q = Inr answer" and "\<nexists>kvs. answer = PDict kvs"
  shows "recommend_products env df q n = (Inl AttributeError, df)"
proof -
  from assms(2) have "py_get answer ''category'' = Inl AttributeError"
    by (cases answer) simp_all
  with assms(1) show ?thesis
    by (simp add: recommend_products_def scored_candidates_def candidates_def)
qed

text \<open>
  What a call can do to \<^verbatim>\<open>df\<close>: nothing, or set the two score columns of every row.
  The fallback reads neither column.
\<close>

lemma catalog_after_call:
  assumes "recommend_products env df user_query top_n = (res, df')"
  shows "df' = df \<or> (\<exists>qe. df' = map (score_row env qe) df)"
proof (cases "scored_candidates env df user_query")
  case (Inl e)
  with assms show ?thesis by (simp add: recommend_products_def)
next
  case (Inr p)
  obtain is_df scored where p: "p = (is_df, scored)" by (cases p)
  from scored_candidates_Inr [OF Inr [unfolded p]] obtain qe fdf where
    c: "candidates env df user_query = Inr (is_df, fdf)" and s: "scored = map (score_row env qe) fdf"
    by blast
  show ?thesis
  proof (cases is_df)
    case True
    with candidates_subset [OF c] have "fdf = df" by simp
    with assms Inr p s True have "df' = map (score_row env qe) df"
      by (simp add: recommend_products_def)
    then show ?thesis by blast
  next
    case False
    with assms Inr p have "df' = df"
      by (simp add: recommend_products_def)
    then show ?thesis by simp
  qed
qed

lemma sort_values_popular_scored:
  assumes "sorts_popular env"
  shows "sort_values_popular env (map (score_row env qe) frame) =
           map (score_row env qe) (sort_values_popular env frame)"
proof -
  let ?idx = "argsort_popular env (map popular_key frame)"
  have "descending_indexer popular_ge (map popular_key frame) ?idx"
    using assms by (simp add: sorts_popular_def)
  then have "\<And>i. i \<in> set ?idx \<Longrightarrow> i < length frame"
    by (auto dest: indexer_set)
  then show ?thesis
    by (simp add: sort_values_popular_def take_rows_map comp_def)
qed

lemma most_popular_scored:
  "sorts_popular env \<Longrightarrow> most_popular env (map (score_row env qe) df) top_n = most_popular env df top_n"
  by (simp add: most_popular_def sort_values_popular_scored head_map to_dict_scored)

lemma most_popular_after_call:
  assumes "recommend_products env df q n = (res, df')" and "sorts_popular env"
  shows "most_popular env df' m = most_popular env df m"
  using catalog_after_call [OF assms(1)] most_popular_scored [OF assms(2)] by auto

lemma length_most_popular:
  assumes "sorts_popular env" and "0 \<le> top_n"
  shows "length (most_popular env df top_n) = min (nat top_n) (length df)"
  using assms by (simp add: most_popular_def to_dict_def head_def length_sort_values_popular min.commute)

lemma length_after_call:
  assumes "recommend_products env df user_query top_n = (res, df')"
  shows "length df' = length df"
  using catalog_after_call [OF assms] by auto

lemma length_recommendations:
  assumes "recommend_products env df user_query top_n = (Inr res, df')" and "0 \<le> top_n"
  shows "length res \<le> nat top_n"
proof -
  from recommend_products_Inr [OF assms(1)] obtain is_df scored where
    "res = to_dict (head top_n (sort_values_final env scored))"
    by blast
  with length_head [OF assms(2)] show ?thesis
    by (simp add: to_dict_def)
qed

lemma recommend_products_keeps_df:
  assumes "(\<exists>e. candidates env df user_query = Inl e) \<or>
           (\<exists>fdf. candidates env df user_query = Inr (False, fdf))"
  shows "snd (recommend_products env df user_query top_n) = df"
proof (cases "candidates env df user_query")
  case (Inl e)
  then show ?thesis
    by (simp add: recommend_products_def scored_candidates_def)
next
  case (Inr p)
  with assms obtain fdf where "candidates env df user_query = Inr (False, fdf)"
    by auto
  then show ?thesis
    by (cases "get_text_embedding env user_query")
       (simp_all add: recommend_products_def scored_candidates_def)
qed

lemma fallback_on_exception:
  "recommend_products env df q n = (Inl e, df') \<Longrightarrow>
     recommend_products_with_fallback env df q n = (Inr (most_popular env df' n), df')"
  by (simp add: recommend_products_with_fallback_def)

lemma fallback_on_empty:
  "recommend_products env df q n = (Inr [], df') \<Longrightarrow>
     recommend_products_with_fallback env df q n = (Inr (most_popular env df' n), df')"
  by (simp add: recommend_products_with_fallback_def)

lemma text_answer_falls_back:
  assumes "analyze_user_input env user_query = Inr (PStr s)"
  shows "recommend_products env df user_query top_n = (Inl AttributeError, df) \<and>
         recommend_products_with_fallback env df user_query top_n = (Inr (most_popular env df top_n), df)"
proof -
  have "recommend_products env df user_query top_n = (Inl AttributeError, df)"
    by (rule not_a_mapping [OF assms]) simp
  then show ?thesis
    by (simp add: fallback_on_exception)
qed

text \<open>
  A catalog that loaded has a row for every record of the file, and there is at least one.
\<close>

lemma embed_rows_length: "embed_rows env products = Inr df \<Longrightarrow> length df = length products"
  by (induction products arbitrary: df) (auto split: sum.splits)

lemma load_catalog_Inr:
  assumes "load_catalog env products = Inr df"
  shows "products \<noteq> [] \<and> length df = length products"
proof -
  from assms have ne: "products \<noteq> []"
    by (auto simp: load_catalog_def split: if_splits)
  with assms have "embed_rows env products = Inr df"
    by (simp add: load_catalog_def)
  with ne show ?thesis
    by (simp add: embed_rows_length)
qed


section \<open>Runs on the sample shop\<close>

lemma demo_env_simps:
  "chat_content (demo_env answer) = (\<lambda>prompt. answer)"
  "encode (demo_env answer) = (\<lambda>text. Inr [1, 0])"
  "cosine_similarity (demo_env answer) = inner_product"
  "argsort_final (demo_env answer) = insertion_argsort_final"
  "argsort_popular (demo_env answer) = insertion_argsort_popular"
  by (simp_all add: demo_env_def)

lemmas demo_rows = trail_runner_def city_sneaker_def desk_lamp_def hiking_boot_def

lemma lower_examples: "lower ''Shoes'' = ''shoes''" "lower ''SHOES'' = ''shoes''" "lower ''shoes'' = ''shoes''"
  "lower ''lighting'' = ''lighting''"
  by (simp_all add: lower_def lower_char_def)

lemma demo_sorts_final: "sorts_final (demo_env answer)"
  by (simp add: sorts_final_def demo_env_simps insertion_argsort_final_ok)

lemma demo_sorts_popular: "sorts_popular (demo_env answer)"
  by (simp add: sorts_popular_def demo_env_simps insertion_argsort_popular_ok)

lemma demo_candidates:
  "candidates (demo_env (Inr shoes_intent)) demo_catalog q = Inr (False, [city_sneaker, hiking_boot])"
  by (simp add: candidates_def analyze_user_input_def demo_env_simps shoes_intent_def
      filter_category_def filter_budget_numbers demo_catalog_def lower_examples demo_rows)

lemma demo_scored:
  "scored_candidates (demo_env (Inr shoes_intent)) demo_catalog q =
     Inr (False, [city_sneaker\<lparr>similarity_score := Some 0, final_score := Some (6 / 5)\<rparr>,
                  hiking_boot\<lparr>similarity_score := Some 1, final_score := Some (3 / 2)\<rparr>])"
  by (simp add: scored_candidates_def demo_candidates get_text_embedding_def score_row_def
      Let_def inner_product_def demo_env_simps demo_rows)

lemma demo_run:
  "recommend_products (demo_env (Inr shoes_intent)) demo_catalog q 5 =
     (Inr [to_record hiking_boot, to_record city_sneaker], demo_catalog)"
  by (simp add: recommend_products_def demo_scored sort_values_final_def final_key_def
      take_rows_def head_def to_dict_def to_record_def demo_env_simps insertion_argsort_final_def)

lemma demo_failure:
  "recommend_products (demo_env (Inl ServiceError)) demo_catalog q n = (Inl ServiceError, demo_catalog)"
  by (rule analyze_failure) (simp add: analyze_user_input_def demo_env_simps)

lemma demo_popular:
  "sort_values_popular (demo_env answer) demo_catalog = [desk_lamp, trail_runner, city_sneaker, hiking_boot]"
  by (simp add: sort_values_popular_def take_rows_def popular_key_def demo_env_simps
      insertion_argsort_popular_def demo_catalog_def demo_rows)

lemma demo_open_scored:
  "map (score_row (demo_env answer) [1, 0]) demo_catalog =
     [trail_runner\<lparr>similarity_score := Some 1, final_score := Some (39 / 20)\<rparr>,
      city_sneaker\<lparr>similarity_score := Some 0, final_score := Some (6 / 5)\<rparr>,
      desk_lamp\<lparr>similarity_score := Some 1, final_score := Some (21 / 10)\<rparr>,
      hiking_boot\<lparr>similarity_score := Some 1, final_score := Some (3 / 2)\<rparr>]"
  by (simp add: score_row_def Let_def inner_product_def demo_env_simps demo_catalog_def demo_rows)

lemma demo_open_ranked:
  "to_dict (head 5 (sort_values_final (demo_env answer) (map (score_row (demo_env answer) [1, 0]) demo_catalog))) =
     [to_record desk_lamp, to_record trail_runner, to_record hiking_boot, to_record city_sneaker]"
  by (simp add: demo_open_scored sort_values_final_def final_key_def
      take_rows_def head_def to_dict_def to_record_def demo_env_simps insertion_argsort_final_def)

lemma demo_jacket_run:
  "recommend_products (demo_env (Inr (PDict []))) [rain_jacket] q 5 =
     (Inr [to_record rain_jacket],
      [rain_jacket\<lparr>similarity_score := Some 1,
                    final_score := Some (0.6 * 1 + 0.3 * 4 + 0.1 * ln (1 + 12))\<rparr>])"
  by (simp add: recommend_products_def scored_candidates_def candidates_def analyze_user_input_def
      filter_category_def filter_budget_def get_text_embedding_def score_row_def Let_def
      sort_values_final_def take_rows_def head_def to_dict_def to_record_def final_key_def
      demo_env_simps inner_product_def insertion_argsort_final_def rain_jacket_def)

lemma demo_load: "load_catalog (demo_env answer) [camp_stove, dome_tent] = Inr camp_rows"
  by (simp add: load_catalog_def demo_env_simps camp_stove_def dome_tent_def camp_rows_def)

lemma demo_camp_popular:
  "sort_values_popular (demo_env answer) camp_rows =
     [camp_rows ! 1, camp_rows ! 0]"
  by (simp add: sort_values_popular_def take_rows_def popular_key_def demo_env_simps
      insertion_argsort_popular_def camp_rows_def)


section \<open>Failure of the intent extractor (C1)\<close>

text \<open>
  Claim C1 says that \<^verbatim>\<open>recommend_products\<close> does not abort when the intent extractor
  fails or answers with something no field can be read from, and goes on without filters
  to a ranked result. It does abort: on the sample shop, with a chat service that raises,
  the call ends with that exception and returns nothing; with a service that answers in
  plain text, the first \<^verbatim>\<open>.get\<close> raises.
\<close>

theorem recommend_products_aborts:
  "analyze_user_input (demo_env (Inl ServiceError)) ''running shoes'' = Inl ServiceError \<and>
   recommend_products (demo_env (Inl ServiceError)) demo_catalog ''running shoes'' 5 =
     (Inl ServiceError, demo_catalog) \<and>
   analyze_user_input (demo_env (Inr (PStr ''shoes, 50-200 USD, waterproof''))) ''running shoes'' =
     Inr (PStr ''shoes, 50-200 USD, waterproof'') \<and>
   recommend_products (demo_env (Inr (PStr ''shoes, 50-200 USD, waterproof''))) demo_catalog
       ''running shoes'' 5 =
     (Inl AttributeError, demo_catalog)"
proof -
  have "analyze_user_input (demo_env (Inr (PStr ''shoes, 50-200 USD, waterproof''))) ''running shoes'' =
     Inr (PStr ''shoes, 50-200 USD, waterproof'')"
    by (simp add: analyze_user_input_def demo_env_simps)
  then have "recommend_products (demo_env (Inr (PStr ''shoes, 50-200 USD, waterproof''))) demo_catalog
       ''running shoes'' 5 = (Inl AttributeError, demo_catalog)"
    by (rule not_a_mapping) simp
  then show ?thesis
    by (simp add: demo_failure) (simp add: analyze_user_input_def demo_env_simps)
qed

text \<open>
  C1 as the code has it. When the intent extractor raises, \<^verbatim>\<open>recommend_products\<close> raises
  the same exception and leaves the catalog alone; it is
  \<^verbatim>\<open>recommend_products_with_fallback\<close> that does not abort, and what it returns is the
  popularity fallback, not a ranking by similarity. When the extractor answers with a mapping
  in which category and budget are absent (or \<^verbatim>\<open>None\<close>) and the query can be embedded,
  \<^verbatim>\<open>recommend_products\<close> filters nothing and returns the first \<open>top_n\<close> rows of the whole
  catalog, scored and sorted.
\<close>

theorem extractor_failure:
  "(analyze_user_input env user_query = Inl e \<longrightarrow>
      recommend_products env df user_query top_n = (Inl e, df) \<and>
      recommend_products_with_fallback env df user_query top_n = (Inr (most_popular env df top_n), df)) \<and>
   (analyze_user_input env user_query = Inr answer \<and>
    py_get answer ''category'' = Inr PNone \<and> py_get answer ''budget'' = Inr PNone \<and>
    get_text_embedding env user_query = Inr query_embedding \<longrightarrow>
      candidates env df user_query = Inr (True, df) \<and>
      fst (recommend_products env df user_query top_n) =
        Inr (to_dict (head top_n (sort_values_final env (map (score_row env query_embedding) df)))))"
proof (intro conjI impI)
  assume a: "analyze_user_input env user_query = Inl e"
  then show r: "recommend_products env df user_query top_n = (Inl e, df)"
    by (rule analyze_failure)
  show "recommend_products_with_fallback env df user_query top_n = (Inr (most_popular env df top_n), df)"
    by (rule fallback_on_exception [OF r])
next
  assume a: "analyze_user_input env user_query = Inr answer \<and>
    py_get answer ''category'' = Inr PNone \<and> py_get answer ''budget'' = Inr PNone \<and>
    get_text_embedding env user_query = Inr query_embedding"
  then have a1: "analyze_user_input env user_query = Inr answer"
    and a2: "py_get answer ''category'' = Inr PNone"
    and a3: "py_get answer ''budget'' = Inr PNone"
    by simp_all
  show c: "candidates env df user_query = Inr (True, df)"
    by (rule candidates_no_intent [OF a1 a2 _ a3]) simp_all
  from a show "fst (recommend_products env df user_query top_n) =
        Inr (to_dict (head top_n (sort_values_final env (map (score_row env query_embedding) df))))"
    by (simp add: recommend_products_def scored_candidates_def c)
qed

theorem extractor_failure_witness:
  "analyze_user_input (demo_env (Inl ServiceError)) ''running shoes'' = Inl ServiceError \<and>
   recommend_products (demo_env (Inl ServiceError)) demo_catalog ''running shoes'' 2 =
     (Inl ServiceError, demo_catalog) \<and>
   recommend_products_with_fallback (demo_env (Inl ServiceError)) demo_catalog ''running shoes'' 2 =
     (Inr [to_record desk_lamp, to_record trail_runner], demo_catalog) \<and>
   analyze_user_input (demo_env (Inr (PDict []))) ''running shoes'' = Inr (PDict []) \<and>
   py_get (PDict []) ''category'' = Inr PNone \<and> py_get (PDict []) ''budget'' = Inr PNone \<and>
   get_text_embedding (demo_env (Inr (PDict []))) ''running shoes'' = Inr [1, 0] \<and>
   candidates (demo_env (Inr (PDict []))) demo_catalog ''running shoes'' = Inr (True, demo_catalog) \<and>
   fst (recommend_products (demo_env (Inr (PDict []))) demo_catalog ''running shoes'' 5) =
     Inr [to_record desk_lamp, to_record trail_runner, to_record hiking_boot, to_record city_sneaker]"
proof -
  have a: "analyze_user_input (demo_env (Inl ServiceError)) ''running shoes'' = Inl ServiceError"
    by (simp add: analyze_user_input_def demo_env_simps)
  have b: "analyze_user_input (demo_env (Inr (PDict []))) ''running shoes'' = Inr (PDict []) \<and>
    py_get (PDict []) ''category'' = Inr PNone \<and> py_get (PDict []) ''budget'' = Inr PNone \<and>
    get_text_embedding (demo_env (Inr (PDict []))) ''running shoes'' = Inr [1, 0]"
    by (simp add: analyze_user_input_def get_text_embedding_def demo_env_simps)
  from extractor_failure [where env = "demo_env (Inl ServiceError)" and user_query = "''running shoes''"
      and e = ServiceError and df = demo_catalog and top_n = 2] a
  have 1: "recommend_products (demo_env (Inl ServiceError)) demo_catalog ''running shoes'' 2 =
     (Inl ServiceError, demo_catalog) \<and>
   recommend_products_with_fallback (demo_env (Inl ServiceError)) demo_catalog ''running shoes'' 2 =
     (Inr (most_popular (demo_env (Inl ServiceError)) demo_catalog 2), demo_catalog)"
    by blast
  from extractor_failure [where env = "demo_env (Inr (PDict []))" and user_query = "''running shoes''"
      and answer = "PDict []" and query_embedding = "[1, 0]" and df = demo_catalog and top_n = 5] b
  have 2: "candidates (demo_env (Inr (PDict []))) demo_catalog ''running shoes'' = Inr (True, demo_catalog) \<and>
      fst (recommend_products (demo_env (Inr (PDict []))) demo_catalog ''running shoes'' 5) =
        Inr (to_dict (head 5 (sort_values_final (demo_env (Inr (PDict [])))
          (map (score_row (demo_env (Inr (PDict []))) [1, 0]) demo_catalog))))"
    by blast
  have 3: "most_popular (demo_env (Inl ServiceError)) demo_catalog 2 = [to_record desk_lamp, to_record trail_runner]"
    by (simp add: most_popular_def demo_popular head_def to_dict_def)
  from a b 1 2 3 show ?thesis
    by (simp add: demo_open_ranked)
qed


section \<open>The final score (C2)\<close>

text \<open>
  Claim C2: whenever \<^verbatim>\<open>recommend_products\<close> returns, the rows it sorted are the survivors
  of the filter, in their order, each with \<open>similarity_score\<close> the cosine similarity of the
  query's embedding and the row's stored embedding, and \<open>final_score\<close> equal to
  \<open>0.6 * similarity_score + 0.3 * rate + 0.1 * ln (1 + review_count)\<close> (over the reals).
\<close>

theorem final_score_formula:
  assumes "recommend_products env df user_query top_n = (Inr res, df')"
  shows "\<exists>query_embedding is_df survivors scored.
           get_text_embedding env user_query = Inr query_embedding \<and>
           candidates env df user_query = Inr (is_df, survivors) \<and>
           scored_candidates env df user_query = Inr (is_df, scored) \<and>
           res = to_dict (head top_n (sort_values_final env scored)) \<and>
           list_all2
             (\<lambda>r s. similarity_score s = Some (cosine_similarity env query_embedding (embedding r)) \<and>
                    final_score s =
                      Some (0.6 * cosine_similarity env query_embedding (embedding r) +
                            0.3 * rate r + 0.1 * ln (1 + real (review_count r))))
             survivors scored"
proof -
  from recommend_products_Inr [OF assms] obtain is_df scored where
    sc: "scored_candidates env df user_query = Inr (is_df, scored)" and
    res: "res = to_dict (head top_n (sort_values_final env scored))"
    by blast
  from scored_candidates_Inr [OF sc] obtain qe fdf where
    qe: "get_text_embedding env user_query = Inr qe" and
    c: "candidates env df user_query = Inr (is_df, fdf)" and
    s: "scored = map (score_row env qe) fdf"
    by blast
  have "list_all2
          (\<lambda>r s. similarity_score s = Some (cosine_similarity env qe (embedding r)) \<and>
                 final_score s =
                   Some (0.6 * cosine_similarity env qe (embedding r) +
                         0.3 * rate r + 0.1 * ln (1 + real (review_count r))))
          fdf scored"
    unfolding s by (simp add: list_all2_map2 list.rel_refl score_row_def Let_def)
  with qe c sc res show ?thesis by blast
qed

theorem final_score_formula_witness:
  "recommend_products (demo_env (Inr (PDict []))) [rain_jacket] ''rain gear'' 5 =
     (Inr [to_record rain_jacket],
      [rain_jacket\<lparr>similarity_score := Some 1,
                    final_score := Some (0.6 * 1 + 0.3 * 4 + 0.1 * ln (1 + 12))\<rparr>]) \<and>
   (\<exists>query_embedding is_df survivors scored.
      get_text_embedding (demo_env (Inr (PDict []))) ''rain gear'' = Inr query_embedding \<and>
      candidates (demo_env (Inr (PDict []))) [rain_jacket] ''rain gear'' = Inr (is_df, survivors) \<and>
      scored_candidates (demo_env (Inr (PDict []))) [rain_jacket] ''rain gear'' = Inr (is_df, scored) \<and>
      [to_record rain_jacket] =
        to_dict (head 5 (sort_values_final (demo_env (Inr (PDict []))) scored)) \<and>
      list_all2
        (\<lambda>r s. similarity_score s =
                 Some (cosine_similarity (demo_env (Inr (PDict []))) query_embedding (embedding r)) \<and>
               final_score s =
                 Some (0.6 * cosine_similarity (demo_env (Inr (PDict []))) query_embedding (embedding r) +
                       0.3 * rate r + 0.1 * ln (1 + real (review_count r))))
        survivors scored)"
  using final_score_formula [OF demo_jacket_run [of "''rain gear''"]] demo_jacket_run [of "''rain gear''"]
  by simp


section \<open>The ranked result (C3)\<close>

text \<open>
  Claim C3: for \<open>top_n\<close> at least 0 (so for every \<open>top_n\<close> from 1 on) and a library sort
  that meets its contract, what \<^verbatim>\<open>recommend_products\<close> returns has at most \<open>top_n\<close>
  items, every item is the record of a row of the catalog, and the final scores of the
  returned rows do not increase along the result. Nothing is asked of the catalog, so the
  statement covers every non-empty one.
\<close>

theorem ranked_result:
  assumes "recommend_products env df user_query top_n = (Inr res, df')"
    and "sorts_final env" and "0 \<le> top_n"
  shows "\<exists>query_embedding items.
           get_text_embedding env user_query = Inr query_embedding \<and>
           res = to_dict items \<and>
           length res \<le> nat top_n \<and>
           (\<forall>x \<in> set res. \<exists>c \<in> set df. x = to_record c) \<and>
           (\<forall>item \<in> set items. \<exists>c \<in> set df. item = score_row env query_embedding c) \<and>
           sorted_wrt (\<lambda>a b. final_key b \<le> final_key a) items"
proof -
  from recommend_products_Inr [OF assms(1)] obtain is_df scored where
    sc: "scored_candidates env df user_query = Inr (is_df, scored)" and
    res: "res = to_dict (head top_n (sort_values_final env scored))"
    by blast
  from scored_candidates_Inr [OF sc] obtain qe fdf where
    qe: "get_text_embedding env user_query = Inr qe" and
    c: "candidates env df user_query = Inr (is_df, fdf)" and
    s: "scored = map (score_row env qe) fdf"
    by blast
  define items where "items = head top_n (sort_values_final env scored)"
  have sub: "set items \<subseteq> set scored"
  proof -
    have "set (sort_values_final env scored) = set scored"
      using sort_values_final_mset [OF assms(2), of scored] by (rule mset_eq_setD)
    with set_head [of top_n "sort_values_final env scored"] show ?thesis
      by (simp add: items_def)
  qed
  have drawn: "\<forall>item \<in> set items. \<exists>c \<in> set df. item = score_row env qe c"
    using sub candidates_subset [OF c] by (auto simp: s)
  have len: "length res \<le> nat top_n"
    using length_head [OF assms(3)] by (simp add: res to_dict_def)
  have srt: "sorted_wrt (\<lambda>a b. final_key b \<le> final_key a) items"
    unfolding items_def by (rule sorted_wrt_head [OF sort_values_final_sorted [OF assms(2)]])
  have recs: "\<forall>x \<in> set res. \<exists>c \<in> set df. x = to_record c"
  proof
    fix x assume "x \<in> set res"
    then obtain item where i: "item \<in> set items" and x: "x = to_record item"
      by (auto simp: res to_dict_def items_def)
    from drawn i obtain c where "c \<in> set df" and "item = score_row env qe c" by blast
    then show "\<exists>c \<in> set df. x = to_record c"
      using x by auto
  qed
  from qe res len recs drawn srt show ?thesis
    unfolding items_def [symmetric] by blast
qed

theorem ranked_result_witness:
  "recommend_products (demo_env (Inr shoes_intent)) demo_catalog ''waterproof shoes'' 5 =
     (Inr [to_record hiking_boot, to_record city_sneaker], demo_catalog) \<and>
   sorts_final (demo_env (Inr shoes_intent)) \<and> (0::int) \<le> 5 \<and>
   (\<exists>query_embedding items.
      get_text_embedding (demo_env (Inr shoes_intent)) ''waterproof shoes'' = Inr query_embedding \<and>
      [to_record hiking_boot, to_record city_sneaker] = to_dict items \<and>
      length [to_record hiking_boot, to_record city_sneaker] \<le> nat 5 \<and>
      (\<forall>x \<in> set [to_record hiking_boot, to_record city_sneaker].
         \<exists>c \<in> set demo_catalog. x = to_record c) \<and>
      (\<forall>item \<in> set items.
         \<exists>c \<in> set demo_catalog. item = score_row (demo_env (Inr shoes_intent)) query_embedding c) \<and>
      sorted_wrt (\<lambda>a b. final_key b \<le> final_key a) items)"
  using ranked_result [OF demo_run demo_sorts_final, of "''waterproof shoes''"] demo_run demo_sorts_final
  by simp


section \<open>The fallback (C4, C9)\<close>

text \<open>
  Claim C4: when \<^verbatim>\<open>recommend_products\<close> raises or returns the empty list,
  \<^verbatim>\<open>recommend_products_with_fallback\<close> returns the first \<open>top_n\<close> rows of the catalog
  sorted by rating and then review count, both descending: the sorted frame is a
  permutation of the catalog in that order, and the query does not occur in the result.
\<close>

theorem fallback_result:
  assumes "isl (fst (recommend_products env df user_query top_n)) \<or>
           fst (recommend_products env df user_query top_n) = Inr []"
    and "sorts_popular env" and "0 \<le> top_n"
  shows "fst (recommend_products_with_fallback env df user_query top_n) =
           Inr (to_dict (take (nat top_n) (sort_values_popular env df))) \<and>
         mset (sort_values_popular env df) = mset df \<and>
         sorted_wrt (\<lambda>a b. popular_ge (popular_key a) (popular_key b)) (sort_values_popular env df)"
proof -
  obtain res df' where r: "recommend_products env df user_query top_n = (res, df')"
    by (cases "recommend_products env df user_query top_n")
  from assms(1) r have "(\<exists>e. res = Inl e) \<or> res = Inr []"
    by (cases res) auto
  then have "recommend_products_with_fallback env df user_query top_n =
               (Inr (most_popular env df' top_n), df')"
    using r by (auto simp: fallback_on_exception fallback_on_empty)
  then have "fst (recommend_products_with_fallback env df user_query top_n) =
               Inr (most_popular env df top_n)"
    using most_popular_after_call [OF r assms(2)] by simp
  then show ?thesis
    using assms(2,3)
    by (simp add: most_popular_def head_nonneg sort_values_popular_mset sort_values_popular_sorted)
qed

theorem fallback_result_witness:
  "(isl (fst (recommend_products (demo_env (Inl ServiceError)) demo_catalog ''running shoes'' 2)) \<or>
    fst (recommend_products (demo_env (Inl ServiceError)) demo_catalog ''running shoes'' 2) = Inr []) \<and>
   sorts_popular (demo_env (Inl ServiceError)) \<and> (0::int) \<le> 2 \<and>
   fst (recommend_products_with_fallback (demo_env (Inl ServiceError)) demo_catalog ''running shoes'' 2) =
     Inr [to_record desk_lamp, to_record trail_runner] \<and>
   sort_values_popular (demo_env (Inl ServiceError)) demo_catalog =
     [desk_lamp, trail_runner, city_sneaker, hiking_boot]"
proof -
  have h: "isl (fst (recommend_products (demo_env (Inl ServiceError)) demo_catalog ''running shoes'' 2)) \<or>
    fst (recommend_products (demo_env (Inl ServiceError)) demo_catalog ''running shoes'' 2) = Inr []"
    by (simp add: demo_failure)
  from fallback_result [OF h demo_sorts_popular] h demo_sorts_popular show ?thesis
    by (simp add: demo_popular to_dict_def)
qed

text \<open>
  Claim C9 says that the fallback does not raise, and that on an empty catalog it returns
  an empty sequence. With an empty \<^verbatim>\<open>products.json\<close> there is no such result: the
  import of the module ends with \<^verbatim>\<open>KeyError\<close> before any request is served.
\<close>

theorem empty_catalog_fails_at_import:
  "load_catalog (demo_env (Inr shoes_intent)) [] = Inl KeyError \<and>
   import_then_recommend (demo_env (Inr shoes_intent)) [] ''running shoes'' 5 = Inl KeyError \<and>
   import_then_recommend (demo_env (Inr shoes_intent)) [] ''running shoes'' 5 \<noteq> Inr []"
  by (simp add: load_catalog_def import_then_recommend_def)

text \<open>
  C9 as the code has it. A catalog that loaded is not empty. On it, for every query and
  every \<open>top_n\<close> from 1 on, and a library sort that returns a permutation, the fallback
  list has \<open>min top_n (number of products)\<close> records, and
  \<^verbatim>\<open>recommend_products_with_fallback\<close> returns a list that is not empty and no longer
  than \<open>top_n\<close>, whatever the engine did; so does the module from import to answer.
\<close>

theorem fallback_on_loaded_catalog:
  assumes "load_catalog env products = Inr df" and "sorts_popular env" and "1 \<le> top_n"
  shows "products \<noteq> [] \<and> length df = length products \<and>
         length (most_popular env df top_n) = min (nat top_n) (length products) \<and>
         (\<exists>res df'. recommend_products_with_fallback env df user_query top_n = (Inr res, df') \<and>
            res \<noteq> [] \<and> length res \<le> nat top_n) \<and>
         (\<exists>res. import_then_recommend env products user_query top_n = Inr res \<and> res \<noteq> [])"
proof -
  from load_catalog_Inr [OF assms(1)] have ne: "products \<noteq> []" and len: "length df = length products"
    by simp_all
  from assms(3) have n0: "0 \<le> top_n"
    by simp
  have pop: "length (most_popular env df top_n) = min (nat top_n) (length products)"
    using length_most_popular [OF assms(2) n0, of df] len by simp
  have "0 < nat top_n" and "0 < length products"
    using ne assms(3) by simp_all
  then have "0 < min (nat top_n) (length products)"
    by (simp only: min_less_iff_conj)
  with pop have "0 < length (most_popular env df top_n)"
    by (simp only:)
  then have pop_ne: "most_popular env df top_n \<noteq> []"
    by simp
  have pop_le: "length (most_popular env df top_n) \<le> nat top_n"
    using pop by simp
  obtain r df' where r: "recommend_products env df user_query top_n = (r, df')"
    by (cases "recommend_products env df user_query top_n")
  have same: "most_popular env df' top_n = most_popular env df top_n"
    by (rule most_popular_after_call [OF r assms(2)])
  have w: "\<exists>res df'. recommend_products_with_fallback env df user_query top_n = (Inr res, df') \<and>
            res \<noteq> [] \<and> length res \<le> nat top_n"
  proof (cases r)
    case (Inl e)
    with r same pop_ne pop_le show ?thesis
      by (simp add: recommend_products_with_fallback_def)
  next
    case (Inr recommendations)
    show ?thesis
    proof (cases "recommendations = []")
      case True
      with r Inr same pop_ne pop_le show ?thesis
        by (simp add: recommend_products_with_fallback_def)
    next
      case False
      moreover have "length recommendations \<le> nat top_n"
        by (rule length_recommendations [OF r [unfolded Inr] n0])
      ultimately show ?thesis
        using r Inr by (simp add: recommend_products_with_fallback_def)
    qed
  qed
  then have "\<exists>res. import_then_recommend env products user_query top_n = Inr res \<and> res \<noteq> []"
    using assms(1) by (auto simp: import_then_recommend_def)
  with ne len pop w show ?thesis
    by blast
qed

theorem fallback_on_loaded_catalog_witness:
  "load_catalog (demo_env (Inl ServiceError)) [camp_stove, dome_tent] = Inr camp_rows \<and>
   sorts_popular (demo_env (Inl ServiceError)) \<and> (1::int) \<le> 1 \<and>
   [camp_stove, dome_tent] \<noteq> [] \<and> length camp_rows = length [camp_stove, dome_tent] \<and>
   most_popular (demo_env (Inl ServiceError)) camp_rows 1 = [to_record (camp_rows ! 1)] \<and>
   recommend_products_with_fallback (demo_env (Inl ServiceError)) camp_rows ''a tent'' 1 =
     (Inr [to_record (camp_rows ! 1)], camp_rows) \<and>
   import_then_recommend (demo_env (Inl ServiceError)) [camp_stove, dome_tent] ''a tent'' 1 =
     Inr [to_record (camp_rows ! 1)]"
proof -
  have p: "most_popular (demo_env (Inl ServiceError)) camp_rows 1 = [to_record (camp_rows ! 1)]"
    by (simp add: most_popular_def demo_camp_popular head_def to_dict_def)
  have f: "recommend_products (demo_env (Inl ServiceError)) camp_rows ''a tent'' 1 =
             (Inl ServiceError, camp_rows)"
    by (rule analyze_failure) (simp add: analyze_user_input_def demo_env_simps)
  have w: "recommend_products_with_fallback (demo_env (Inl ServiceError)) camp_rows ''a tent'' 1 =
     (Inr [to_record (camp_rows ! 1)], camp_rows)"
    by (simp add: fallback_on_exception [OF f] p)
  have i: "import_then_recommend (demo_env (Inl ServiceError)) [camp_stove, dome_tent] ''a tent'' 1 =
     Inr [to_record (camp_rows ! 1)]"
    by (simp add: import_then_recommend_def demo_load w)
  from fallback_on_loaded_catalog [OF demo_load demo_sorts_popular, of 1 "Inl ServiceError" "''a tent''"]
    demo_load [of "Inl ServiceError"] demo_sorts_popular [of "Inl ServiceError"] p w i
  show ?thesis
    by simp
qed


section \<open>The candidate filter (C5)\<close>

text \<open>
  Claim C5: let the extractor's answer carry the category \<open>cat\<close> (a string that is not
  empty, or nothing) and the budget \<open>budget\<close> (a list of two numbers, or nothing). The
  candidates of \<^verbatim>\<open>recommend_products\<close> are then exactly the rows of the catalog, in
  catalog order, whose category equals \<open>cat\<close> up to case when there is one, and whose price
  lies between the two bounds, both included, when there is a budget. The frame is
  \<^verbatim>\<open>df\<close> itself exactly when there is neither. An empty string counts as no category.
\<close>

theorem candidate_filter:
  assumes "analyze_user_input env user_query = Inr answer"
    and "py_get answer ''category'' = Inr (case cat of None \<Rightarrow> PNone | Some c \<Rightarrow> PStr c)"
    and "cat \<noteq> Some []"
    and "py_get answer ''budget'' =
           Inr (case budget of None \<Rightarrow> PNone | Some (lo, hi) \<Rightarrow> PList [PNum lo, PNum hi])"
  shows "candidates env df user_query =
           Inr (cat = None \<and> budget = None,
                filter (\<lambda>r. (case cat of None \<Rightarrow> True | Some c \<Rightarrow> lower (category r) = lower c) \<and>
                            (case budget of None \<Rightarrow> True | Some (lo, hi) \<Rightarrow> lo \<le> price r \<and> price r \<le> hi))
                  df)"
proof -
  from assms(2) obtain kvs where "answer = PDict kvs"
    by (auto dest: py_get_Inr)
  then have f: "py_get answer ''features'' = Inr (case map_of kvs ''features'' of None \<Rightarrow> PNone | Some v \<Rightarrow> v)"
    by simp
  have c: "candidates env df user_query =
             (case filter_category (case cat of None \<Rightarrow> PNone | Some c \<Rightarrow> PStr c) df of
                Inl e \<Rightarrow> Inl e
              | Inr fd \<Rightarrow>
                  filter_budget env (case budget of None \<Rightarrow> PNone | Some (lo, hi) \<Rightarrow> PList [PNum lo, PNum hi]) fd)"
    using assms(1,2,4) f by (simp add: candidates_def)
  show ?thesis
  proof (cases cat)
    case None
    show ?thesis
    proof (cases budget)
      case n: None
      with None c show ?thesis by (simp add: filter_category_def filter_budget_def)
    next
      case (Some b)
      with None c show ?thesis
        by (cases b) (simp add: filter_category_def filter_budget_numbers)
    qed
  next
    case (Some s)
    with assms(3) have "s \<noteq> []" by simp
    show ?thesis
    proof (cases budget)
      case None
      with Some c \<open>s \<noteq> []\<close> show ?thesis by (simp add: filter_category_def filter_budget_def)
    next
      case b: (Some b)
      with Some c \<open>s \<noteq> []\<close> show ?thesis
        by (cases b) (simp add: filter_category_def filter_budget_numbers conj_commute)
    qed
  qed
qed

text \<open>
  On the sample shop, category \<^verbatim>\<open>Shoes\<close> and budget \<^verbatim>\<open>[50, 200]\<close>: the shoe at 49.99
  is out, the one at 200.00 is in, and \<^verbatim>\<open>SHOES\<close> matches.
\<close>

theorem candidate_filter_witness:
  "analyze_user_input (demo_env (Inr shoes_intent)) ''waterproof shoes'' = Inr shoes_intent \<and>
   py_get shoes_intent ''category'' = Inr (PStr ''Shoes'') \<and>
   py_get shoes_intent ''budget'' = Inr (PList [PNum 50, PNum 200]) \<and>
   candidates (demo_env (Inr shoes_intent)) demo_catalog ''waterproof shoes'' =
     Inr (False, [city_sneaker, hiking_boot]) \<and>
   filter (\<lambda>r. lower (category r) = lower ''Shoes'' \<and> 50 \<le> price r \<and> price r \<le> 200) demo_catalog =
     [city_sneaker, hiking_boot] \<and>
   category trail_runner = ''shoes'' \<and> price trail_runner = 49.99 \<and>
   category city_sneaker = ''shoes'' \<and> price city_sneaker = 200.00 \<and>
   category hiking_boot = ''SHOES'' \<and> price hiking_boot = 150"
proof -
  have a: "analyze_user_input (demo_env (Inr shoes_intent)) ''waterproof shoes'' = Inr shoes_intent"
    by (simp add: analyze_user_input_def demo_env_simps)
  have c: "py_get shoes_intent ''category'' = Inr (case Some ''Shoes'' of None \<Rightarrow> PNone | Some c \<Rightarrow> PStr c)"
    by (simp add: shoes_intent_def)
  have n: "Some ''Shoes'' \<noteq> Some []"
    by simp
  have b: "py_get shoes_intent ''budget'' =
             Inr (case Some (50, 200) of None \<Rightarrow> PNone | Some (lo, hi) \<Rightarrow> PList [PNum lo, PNum hi])"
    by (simp add: shoes_intent_def)
  from candidate_filter [OF a c n b, of demo_catalog]
  have "filter (\<lambda>r. lower (category r) = lower ''Shoes'' \<and> 50 \<le> price r \<and> price r \<le> 200) demo_catalog =
     [city_sneaker, hiking_boot]"
    by (simp add: demo_candidates)
  with a c b show ?thesis
    by (simp add: demo_candidates) (simp add: demo_rows)
qed


section \<open>The catalog under a call (C7)\<close>

text \<open>
  Claim C7: a call of \<^verbatim>\<open>recommend_products\<close> leaves the catalog as it was.
  \<^verbatim>\<open>analyze_user_input\<close> returns the content of the chat answer as it comes, and that
  content is text. For every answer that is no mapping (text, \<^verbatim>\<open>None\<close>, or an exception
  of the service) the call ends at the first \<^verbatim>\<open>.get\<close> or before, and the catalog is
  untouched. The same holds for a mapping that names a category or carries a two-element
  budget: the scores are then written to a new frame.
\<close>

theorem catalog_unchanged:
  "((\<forall>kvs. analyze_user_input env user_query \<noteq> Inr (PDict kvs)) \<longrightarrow>
      snd (recommend_products env df user_query top_n) = df) \<and>
   (analyze_user_input env user_query = Inr answer \<and>
    py_get answer ''category'' = Inr cat \<and> py_get answer ''budget'' = Inr budget \<and>
    (truthy cat \<or> budget_bounds budget \<noteq> None) \<longrightarrow>
      snd (recommend_products env df user_query top_n) = df)"
proof (intro conjI impI)
  assume n: "\<forall>kvs. analyze_user_input env user_query \<noteq> Inr (PDict kvs)"
  show "snd (recommend_products env df user_query top_n) = df"
  proof (cases "analyze_user_input env user_query")
    case (Inl e)
    then show ?thesis by (simp add: analyze_failure)
  next
    case (Inr answer)
    with n have "\<nexists>kvs. answer = PDict kvs" by auto
    from not_a_mapping [OF Inr this] show ?thesis by simp
  qed
next
  assume a: "analyze_user_input env user_query = Inr answer \<and>
    py_get answer ''category'' = Inr cat \<and> py_get answer ''budget'' = Inr budget \<and>
    (truthy cat \<or> budget_bounds budget \<noteq> None)"
  then have a1: "analyze_user_input env user_query = Inr answer"
    and a2: "py_get answer ''category'' = Inr cat"
    and a3: "py_get answer ''budget'' = Inr budget"
    and a4: "truthy cat \<or> budget_bounds budget \<noteq> None"
    by simp_all
  from a2 obtain kvs where k: "answer = PDict kvs"
    by (auto dest: py_get_Inr)
  have c: "candidates env df user_query =
             (case filter_category cat df of Inl e \<Rightarrow> Inl e | Inr fd \<Rightarrow> filter_budget env budget fd)"
    using a1 a2 a3 k by (simp add: candidates_def)
  have "(\<exists>e. candidates env df user_query = Inl e) \<or> (\<exists>fdf. candidates env df user_query = Inr (False, fdf))"
  proof (cases "candidates env df user_query")
    case (Inl e)
    then show ?thesis by simp
  next
    case (Inr p)
    obtain is_df fdf where p: "p = (is_df, fdf)" by (cases p)
    from Inr c p obtain b fdf0 where
      fc: "filter_category cat df = Inr (b, fdf0)" and
      fb: "filter_budget env budget (b, fdf0) = Inr (is_df, fdf)"
      by (auto split: sum.splits)
    have "\<not> is_df"
    proof
      assume is_df
      with filter_budget_subset [OF fb] have b by simp
      with fc have "\<not> truthy cat"
        by (auto simp: filter_category_def split: if_splits sum.splits)
      moreover from fb \<open>is_df\<close> have "budget_bounds budget = None"
        by (auto simp: filter_budget_def split: option.splits prod.splits sum.splits)
      ultimately show False using a4 by simp
    qed
    with Inr p show ?thesis by simp
  qed
  then show "snd (recommend_products env df user_query top_n) = df"
    by (rule recommend_products_keeps_df)
qed

theorem catalog_unchanged_witness:
  "(\<forall>kvs. analyze_user_input (demo_env (Inr (PStr ''shoes, 50-200 USD, waterproof''))) ''running shoes'' \<noteq>
      Inr (PDict kvs)) \<and>
   snd (recommend_products (demo_env (Inr (PStr ''shoes, 50-200 USD, waterproof''))) demo_catalog
     ''running shoes'' 5) = demo_catalog \<and>
   analyze_user_input (demo_env (Inr shoes_intent)) ''running shoes'' = Inr shoes_intent \<and>
   py_get shoes_intent ''category'' = Inr (PStr ''Shoes'') \<and>
   py_get shoes_intent ''budget'' = Inr (PList [PNum 50, PNum 200]) \<and>
   truthy (PStr ''Shoes'') \<and>
   fst (recommend_products (demo_env (Inr shoes_intent)) demo_catalog ''running shoes'' 5) =
     Inr [to_record hiking_boot, to_record city_sneaker] \<and>
   snd (recommend_products (demo_env (Inr shoes_intent)) demo_catalog ''running shoes'' 5) = demo_catalog"
proof -
  have t: "\<forall>kvs. analyze_user_input (demo_env (Inr (PStr ''shoes, 50-200 USD, waterproof''))) ''running shoes'' \<noteq>
      Inr (PDict kvs)"
    by (simp add: analyze_user_input_def demo_env_simps)
  have s: "analyze_user_input (demo_env (Inr shoes_intent)) ''running shoes'' = Inr shoes_intent \<and>
    py_get shoes_intent ''category'' = Inr (PStr ''Shoes'') \<and>
    py_get shoes_intent ''budget'' = Inr (PList [PNum 50, PNum 200]) \<and>
    (truthy (PStr ''Shoes'') \<or> budget_bounds (PList [PNum 50, PNum 200]) \<noteq> None)"
    by (simp add: analyze_user_input_def demo_env_simps shoes_intent_def)
  from catalog_unchanged [where env = "demo_env (Inr (PStr ''shoes, 50-200 USD, waterproof''))"
      and user_query = "''running shoes''" and df = demo_catalog and top_n = 5] t
  have 1: "snd (recommend_products (demo_env (Inr (PStr ''shoes, 50-200 USD, waterproof''))) demo_catalog
     ''running shoes'' 5) = demo_catalog"
    by blast
  from catalog_unchanged [where env = "demo_env (Inr shoes_intent)"
      and user_query = "''running shoes''" and df = demo_catalog and top_n = 5
      and answer = shoes_intent and cat = "PStr ''Shoes''" and budget = "PList [PNum 50, PNum 200]"] s
  have 2: "snd (recommend_products (demo_env (Inr shoes_intent)) demo_catalog ''running shoes'' 5) = demo_catalog"
    by blast
  from t s 1 2 show ?thesis
    by (simp add: demo_run)
qed

text \<open>
  The one answer left is a mapping with neither category nor budget, which the module as it
  stands cannot receive, since nothing parses the chat text. There \<^verbatim>\<open>filtered_df\<close> is
  \<^verbatim>\<open>df\<close>, and the two column assignments would write into the catalog.
\<close>

lemma unfiltered_mapping_writes_catalog:
  "map similarity_score demo_catalog = [None, None, None, None] \<and>
   map similarity_score (snd (recommend_products (demo_env (Inr (PDict []))) demo_catalog ''a present'' 5)) =
     [Some 1, Some 0, Some 1, Some 1] \<and>
   snd (recommend_products (demo_env (Inr (PDict []))) demo_catalog ''a present'' 5) \<noteq> demo_catalog \<and>
   snd (recommend_products (demo_env (Inr shoes_intent)) demo_catalog ''a present'' 5) = demo_catalog"
proof -
  let ?after = "snd (recommend_products (demo_env (Inr (PDict []))) demo_catalog ''a present'' 5)"
  have w: "?after = map (score_row (demo_env (Inr (PDict []))) [1, 0]) demo_catalog"
    by (simp add: recommend_products_def scored_candidates_def candidates_def analyze_user_input_def
        filter_category_def filter_budget_def get_text_embedding_def demo_env_simps)
  have before: "map similarity_score demo_catalog = [None, None, None, None]"
    by (simp add: demo_catalog_def demo_rows)
  have after: "map similarity_score ?after = [Some 1, Some 0, Some 1, Some 1]"
    unfolding w by (simp add: demo_open_scored)
  have "?after \<noteq> demo_catalog"
  proof
    assume "?after = demo_catalog"
    then have "map similarity_score ?after = map similarity_score demo_catalog"
      by simp
    with before after show False
      by simp
  qed
  with before after show ?thesis
    by (simp add: demo_run)
qed


section \<open>The history file (C8, C10)\<close>

lemma save_appends:
  assumes "load_existing_recommendations js file = Inr (PList entries)"
  shows "save_recommendations js query recommendations file =
           (Inr (), Some (dumps js (PList (entries @ [history_entry query recommendations]))))"
  using assms by (simp add: save_recommendations_def)

lemma load_after_dump:
  assumes "\<forall>v. loads js (dumps js v) = Inr v"
  shows "load_existing_recommendations js (Some (dumps js data)) = Inr data"
  using assms by (simp add: load_existing_recommendations_def)

lemma save_all_appends:
  assumes "\<forall>v. loads js (dumps js v) = Inr v"
  shows "load_existing_recommendations js hist = Inr (PList entries) \<Longrightarrow>
         \<exists>hist'. save_all js calls hist = (Inr (), hist') \<and>
           load_existing_recommendations js hist' =
             Inr (PList (entries @ map (\<lambda>(query, recommendations). history_entry query recommendations) calls))"
proof (induction calls arbitrary: hist entries)
  case Nil
  then show ?case by simp
next
  case (Cons call calls)
  obtain query recommendations where call: "call = (query, recommendations)"
    by (cases call)
  let ?next = "Some (dumps js (PList (entries @ [history_entry query recommendations])))"
  have step: "save_recommendations js query recommendations hist = (Inr (), ?next)"
    by (rule save_appends [OF Cons.prems])
  have "load_existing_recommendations js ?next =
          Inr (PList (entries @ [history_entry query recommendations]))"
    by (rule load_after_dump [OF assms])
  from Cons.IH [OF this] obtain hist' where
    "save_all js calls ?next = (Inr (), hist')" and
    "load_existing_recommendations js hist' =
       Inr (PList ((entries @ [history_entry query recommendations]) @
            map (\<lambda>(query, recommendations). history_entry query recommendations) calls))"
    by blast
  with step show ?case
    by (simp add: call)
qed

lemma ideal_json_round_trip: "\<forall>v. loads ideal_json (dumps ideal_json v) = Inr v"
  by (simp add: ideal_json_def)

text \<open>
  Claim C8: with a JSON library that reads back what it wrote, any run of calls to
  \<^verbatim>\<open>save_recommendations\<close> that starts without a history file goes through without an
  exception, and \<^verbatim>\<open>load_existing_recommendations\<close> then returns the list of the entries
  of these calls, in the order of the calls; on a missing file it returns the empty list.
\<close>

theorem history_round_trip:
  assumes "\<forall>v. loads js (dumps js v) = Inr v"
  shows "(\<exists>file. save_all js calls None = (Inr (), file) \<and>
            load_existing_recommendations js file =
              Inr (PList (map (\<lambda>(query, recommendations). history_entry query recommendations) calls))) \<and>
         load_existing_recommendations js None = Inr (PList [])"
proof -
  have missing: "load_existing_recommendations js None = Inr (PList [])"
    by (simp add: load_existing_recommendations_def)
  from save_all_appends [OF assms missing, of calls] missing show ?thesis
    by simp
qed

theorem history_round_trip_witness:
  "(\<forall>v. loads ideal_json (dumps ideal_json v) = Inr v) \<and>
   save_all ideal_json [(''running shoes'', PList [to_record hiking_boot]), (''a lamp'', PList [])] None =
     (Inr (),
      Some (Json_text (PList [history_entry ''running shoes'' (PList [to_record hiking_boot]),
                              history_entry ''a lamp'' (PList [])]))) \<and>
   load_existing_recommendations ideal_json
     (Some (Json_text (PList [history_entry ''running shoes'' (PList [to_record hiking_boot]),
                              history_entry ''a lamp'' (PList [])]))) =
     Inr (PList [history_entry ''running shoes'' (PList [to_record hiking_boot]),
                 history_entry ''a lamp'' (PList [])]) \<and>
   load_existing_recommendations ideal_json None = Inr (PList [])"
proof -
  have run: "save_all ideal_json [(''running shoes'', PList [to_record hiking_boot]), (''a lamp'', PList [])] None =
     (Inr (),
      Some (Json_text (PList [history_entry ''running shoes'' (PList [to_record hiking_boot]),
                              history_entry ''a lamp'' (PList [])])))"
    by (simp add: save_recommendations_def load_existing_recommendations_def ideal_json_def)
  from history_round_trip [OF ideal_json_round_trip,
      of "[(''running shoes'', PList [to_record hiking_boot]), (''a lamp'', PList [])]"]
    ideal_json_round_trip run
  show ?thesis
    by simp
qed

text \<open>
  Claim C10: when the history file exists and its contents are no JSON (the library raises
  \<^verbatim>\<open>JSONDecodeError\<close>), \<^verbatim>\<open>load_existing_recommendations\<close> returns the empty list,
  and \<^verbatim>\<open>save_recommendations\<close> replaces the contents by the array of the one new
  entry: whatever was in the file is gone.
\<close>

theorem corrupt_history_overwritten:
  assumes "loads js contents = Inl JSONDecodeError"
  shows "load_existing_recommendations js (Some contents) = Inr (PList []) \<and>
         save_recommendations js query recommendations (Some contents) =
           (Inr (), Some (dumps js (PList [history_entry query recommendations])))"
proof -
  have l: "load_existing_recommendations js (Some contents) = Inr (PList [])"
    using assms by (simp add: load_existing_recommendations_def)
  from save_appends [OF l] l show ?thesis
    by simp
qed

theorem corrupt_history_overwritten_witness:
  "loads ideal_json Garbled = Inl JSONDecodeError \<and>
   load_existing_recommendations ideal_json (Some Garbled) = Inr (PList []) \<and>
   save_recommendations ideal_json ''a lamp'' (PList [to_record desk_lamp]) (Some Garbled) =
     (Inr (), Some (Json_text (PList [history_entry ''a lamp'' (PList [to_record desk_lamp])])))"
proof -
  have g: "loads ideal_json Garbled = Inl JSONDecodeError"
    by (simp add: ideal_json_def)
  from corrupt_history_overwritten [OF g, of "''a lamp''" "PList [to_record desk_lamp]"] g
  show ?thesis
    by (simp add: ideal_json_def)
qed

end
